theory Spec2Isabelle
  imports Main "HOL-Library.Sublist"
begin

section \<open>Go standard-library functions used by package golang\<close>

text \<open>
  Go strings are byte sequences; they are modelled as \<open>string\<close> (a list of \<open>char\<close>, one
  per byte). The functions below follow the documented behaviour of package \<open>strings\<close>
  and \<open>bufio\<close> on ASCII input.
\<close>

definition HasPrefix :: "string \<Rightarrow> string \<Rightarrow> bool" where
  "HasPrefix s p = prefix p s"

definition TrimPrefix :: "string \<Rightarrow> string \<Rightarrow> string" where
  "TrimPrefix s p = (if prefix p s then drop (length p) s else s)"

definition TrimSuffix :: "string \<Rightarrow> string \<Rightarrow> string" where
  "TrimSuffix s p = (if suffix p s then take (length s - length p) s else s)"

text \<open>
  \<open>strings.Split s sep\<close> for a non-empty separator: the substrings between the
  non-overlapping occurrences of \<open>sep\<close>, found from the left. The result is never empty.
  \<open>cur\<close> holds the bytes of the current piece, reversed.
\<close>

fun Split_from :: "string \<Rightarrow> string \<Rightarrow> string \<Rightarrow> string list" where
  "Split_from sep cur [] = [rev cur]"
| "Split_from sep cur (c # cs) =
     (if sep \<noteq> [] \<and> prefix sep (c # cs)
      then rev cur # Split_from sep [] (drop (length sep - 1) cs)
      else Split_from sep (c # cur) cs)"

definition Split :: "string \<Rightarrow> string \<Rightarrow> string list" where
  "Split s sep = Split_from sep [] s"

text \<open>The ASCII white space of \<open>unicode.IsSpace\<close>: tab, newline, vertical tab, form
  feed, carriage return and space.\<close>

definition isSpace :: "char \<Rightarrow> bool" where
  "isSpace c = (c = CHR 0x09 \<or> c = CHR 0x0A \<or> c = CHR 0x0B \<or> c = CHR 0x0C
                \<or> c = CHR 0x0D \<or> c = CHR 0x20)"

definition TrimSpace :: "string \<Rightarrow> string" where
  "TrimSpace s = rev (dropWhile isSpace (rev (dropWhile isSpace s)))"



text \<open>
  The tokens of a \<open>bufio.Scanner\<close> with the default split function \<open>ScanLines\<close>: the
  text is cut at each newline, one trailing carriage return is dropped from each line,
  and a last line without newline is a token when it is not empty. The scanner's limit on
  the length of one token (64 KiB) is not part of the model: lines are taken to fit.
\<close>

definition dropCR :: "string \<Rightarrow> string" where
  "dropCR l = (if l \<noteq> [] \<and> last l = CHR 0x0D then butlast l else l)"

fun ScanLines_from :: "string \<Rightarrow> string \<Rightarrow> string list" where
  "ScanLines_from cur [] = (if cur = [] then [] else [dropCR (rev cur)])"
| "ScanLines_from cur (c # cs) =
     (if c = CHR 0x0A then dropCR (rev cur) # ScanLines_from [] cs
      else ScanLines_from (c # cur) cs)"

definition ScanLines :: "string \<Rightarrow> string list" where
  "ScanLines s = ScanLines_from [] s"

section \<open>Errors\<close>

text \<open>
  Every error value the package builds or passes on, and the two run-time panics its
  code could raise. A panic is an outcome of its own: it is never a returned \<open>error\<close>.
\<close>

datatype error =
    ReleaseNotFound string string string
      \<comment> \<open>\<open>failed to find %s release for os=%s arch=%s\<close>\<close>
  | BadStatus nat
      \<comment> \<open>\<open>bad HTTP status code: %d\<close>, from \<open>get\<close>\<close>
  | ChecksumMismatch string string
      \<comment> \<open>\<open>checksum mismatch %s != %s\<close>, from \<open>downloadBin\<close>\<close>
  | TransportError string
      \<comment> \<open>an error of the HTTP client\<close>
  | OSError string
      \<comment> \<open>an error of a file-system or I/O call other than \<open>fs.ErrNotExist\<close>\<close>
  | ErrNotExist
      \<comment> \<open>\<open>fs.ErrNotExist\<close>\<close>
  | ExtractError string
      \<comment> \<open>an error of \<open>download.Extract\<close>\<close>
  | PanicIndexOutOfRange nat nat
      \<comment> \<open>run-time panic: index out of range [i] with length n\<close>
  | PanicNilDereference
      \<comment> \<open>run-time panic: nil pointer dereference\<close>

section \<open>The embedded release index\<close>

definition downloadURL :: string where
  "downloadURL = ''https://go.dev/dl/''"

text \<open>\<open>Runtime.ID\<close>: the receiver is its only field, \<open>Version\<close>.\<close>

definition ID :: "string \<Rightarrow> string" where
  "ID Version = ''go'' @ Version"

text \<open>
  The loop of \<open>getReleaseAndDigest\<close> over the scanned lines. \<open>line[1]\<close> is read before
  \<open>line[0]\<close> and without a length check: on a line that \<open>Split\<close> leaves in one piece
  the read panics.
\<close>

fun releaseLoop :: "string \<Rightarrow> string \<Rightarrow> string \<Rightarrow> string \<Rightarrow> string list
    \<Rightarrow> error + (string \<times> string)" where
  "releaseLoop Version os arch key [] = Inl (ReleaseNotFound (ID Version) os arch)"
| "releaseLoop Version os arch key (text # rest) =
     (let line = Split text ''  '' in
      if length line \<le> 1 then Inl (PanicIndexOutOfRange 1 (length line))
      else
        let file = TrimSpace (line ! 1); digest = TrimSpace (line ! 0) in
        if HasPrefix file key then Inr (downloadURL @ file, digest)
        else releaseLoop Version os arch key rest)"

text \<open>
  \<open>getReleaseAndDigest\<close>. The embedded file \<open>digests.txt\<close> (\<open>releasesData\<close>),
  \<open>runtime.GOOS\<close> and \<open>runtime.GOARCH\<close> are parameters.
\<close>

definition getReleaseAndDigest :: "string \<Rightarrow> string \<Rightarrow> string \<Rightarrow> string
    \<Rightarrow> error + (string \<times> string)" where
  "getReleaseAndDigest releasesData os arch Version =
     (let key = ID Version @ ''.'' @ os @ ''-'' @ arch
      in releaseLoop Version os arch key (ScanLines releasesData))"

section \<open>Paths\<close>

text \<open>
  \<open>filepath.Join\<close>: the non-empty elements, joined by the separator of the platform.
  The lexical clean-up that \<open>Join\<close> applies afterwards is not modelled; no property
  below depends on it.
\<close>

definition Separator :: "string \<Rightarrow> char" where
  "Separator os = (if os = ''windows'' then CHR 0x5C else CHR ''/'')"

fun joinWith :: "char \<Rightarrow> string list \<Rightarrow> string" where
  "joinWith c [] = []"
| "joinWith c [e] = e"
| "joinWith c (e # f # es) = e @ c # joinWith c (f # es)"

definition Join :: "string \<Rightarrow> string list \<Rightarrow> string" where
  "Join os elems = joinWith (Separator os) (filter (\<lambda>e. e \<noteq> []) elems)"

section \<open>The outside world\<close>

text \<open>
  What the package does to the network and the file system is recorded as the list of
  calls it makes, in order.
\<close>

datatype event =
    HttpGet string
  | Stat string
  | MkdirAll string
  | Create string
  | Copy string string
  | Close string
  | Chmod string
  | Extract string string string
  | Rename string string
  | RemoveAll string

text \<open>
  An HTTP exchange: the client fails, or a response arrives. Of the response the code
  reads the status code, the \<open>Location\<close> header (empty when absent, as \<open>Header.Get\<close>
  returns it) and the body. A client is a function from the URL to the outcome.
\<close>

record http_response =
  StatusCode :: nat
  Location :: string
  Body :: string

datatype http_result = Failed string | Responded http_response

type_synonym http_client = "string \<Rightarrow> http_result"

section \<open>Releases of a tool's repository\<close>

text \<open>
  Of \<open>types.Tool\<close>, declared in another package, the code reads \<open>Source.IsGit()\<close>
  and the pointer \<open>Source.Repo\<close> with its fields \<open>Root\<close> and \<open>Revision\<close>.
\<close>

record source_repo =
  Root :: string
  Revision :: string

record tool =
  IsGit :: bool
  Repo :: "source_repo option"

record release =
  account :: string
  repo :: string
  label :: string





record tag =
  Name :: string
  Sha :: string

text \<open>The loop of \<open>getLatestRelease\<close> over the decoded tags: the first tag whose commit
  is the revision.\<close>

fun tagLoop :: "string \<Rightarrow> string \<Rightarrow> string \<Rightarrow> tag list \<Rightarrow> release option" where
  "tagLoop acc rp revision [] = None"
| "tagLoop acc rp revision (t # ts) =
     (if Sha t = revision then Some \<lparr>account = acc, repo = rp, label = Name t\<rparr>
      else tagLoop acc rp revision ts)"

text \<open>
  \<open>getLatestRelease\<close>. \<open>client\<close> is the HTTP client that does not follow redirects;
  \<open>decode\<close> is the JSON decoder (\<open>None\<close> when it returns an error). The result is the
  pair the code returns, a pointer that may be nil and a flag, with the calls made.
  \<open>parts[len(parts)-1]\<close> is in range, \<open>Split\<close> returning at least one piece.
\<close>

definition getLatestRelease :: "http_client \<Rightarrow> (string \<Rightarrow> tag list option) \<Rightarrow> tool
    \<Rightarrow> (release option \<times> bool) \<times> event list" where
  "getLatestRelease client decode t =
     (case Repo t of
        None \<Rightarrow> ((None, False), [])
      | Some rp \<Rightarrow>
          if \<not> HasPrefix (Root rp) ''https://github.com/'' then ((None, False), [])
          else
            let parts = Split (TrimPrefix (TrimSuffix (Root rp) ''.git'') ''https://'') ''/'' in
            if length parts \<noteq> 3 then ((None, False), [])
            else
              let acc = parts ! 1; rpo = parts ! 2;
                  tagsURL = ''https://api.github.com/repos/'' @ acc @ ''/'' @ rpo @ ''/tags'';
                  latestURL = ''https://github.com/'' @ acc @ ''/'' @ rpo @ ''/releases/latest''
              in
              (case client tagsURL of
                 Failed e \<Rightarrow> ((None, False), [HttpGet tagsURL])
               | Responded resp \<Rightarrow>
                   if StatusCode resp \<noteq> 200 then ((None, False), [HttpGet tagsURL])
                   else
                     (case decode (Body resp) of
                        None \<Rightarrow> ((None, False), [HttpGet tagsURL])
                      | Some tags \<Rightarrow>
                          (case tagLoop acc rpo (Revision rp) tags of
                             Some rel \<Rightarrow> ((Some rel, True), [HttpGet tagsURL])
                           | None \<Rightarrow>
                               (case client latestURL of
                                  Failed e \<Rightarrow> ((None, False), [HttpGet tagsURL, HttpGet latestURL])
                                | Responded resp2 \<Rightarrow>
                                    if StatusCode resp2 \<noteq> 302
                                    then ((None, False), [HttpGet tagsURL, HttpGet latestURL])
                                    else
                                      let target = Location resp2 in
                                      if target = []
                                      then ((None, False), [HttpGet tagsURL, HttpGet latestURL])
                                      else
                                        let parts2 = Split target ''/'';
                                            lbl = parts2 ! (length parts2 - 1)
                                        in ((Some \<lparr>account = acc, repo = rpo, label = lbl\<rparr>, True),
                                            [HttpGet tagsURL, HttpGet latestURL]))))))"

section \<open>Downloading a prebuilt binary\<close>

text \<open>\<open>get\<close>, with the default client. Building the request and sending it fail the
  same way for the callers: both are \<open>Failed\<close>.\<close>

definition get :: "http_client \<Rightarrow> string \<Rightarrow> error + http_response" where
  "get http url =
     (case http url of
        Failed e \<Rightarrow> Inl (TransportError e)
      | Responded resp \<Rightarrow>
          if StatusCode resp \<noteq> 200 then Inl (BadStatus (StatusCode resp)) else Inr resp)"

text \<open>
  The file-system calls of \<open>downloadBin\<close> may each fail; which ones do is given by the
  environment. A failing \<open>io.Copy\<close> has written some prefix of the body.
\<close>

record file_faults =
  mkdirall_fault :: "string option"
  create_fault :: "string option"
  copy_fault :: "(string \<times> nat) option"
  close_fault :: "string option"
  chmod_fault :: "string option"

text \<open>
  \<open>downloadBin\<close>. \<open>sha256hex\<close> is \<open>hex.EncodeToString\<close> of the SHA-256 digest of
  the bytes written. The result is the returned error (\<open>None\<close> is \<open>nil\<close>) and the calls
  made.
\<close>

definition downloadBin :: "(string \<Rightarrow> string) \<Rightarrow> http_client \<Rightarrow> file_faults \<Rightarrow> string
    \<Rightarrow> string \<Rightarrow> string \<Rightarrow> string \<Rightarrow> string \<Rightarrow> error option \<times> event list" where
  "downloadBin sha256hex http faults os checksum src url bin =
     (case get http url of
        Inl err \<Rightarrow> (Some err, [HttpGet url])
      | Inr resp \<Rightarrow>
          let dir = Join os [src, ''bin''];
              t1 = [HttpGet url, MkdirAll dir]
          in
          (case mkdirall_fault faults of
             Some e \<Rightarrow> (Some (OSError e), t1)
           | None \<Rightarrow>
               let targetFile = Join os [src, ''bin'', bin];
                   t2 = t1 @ [Create targetFile]
               in
               (case create_fault faults of
                  Some e \<Rightarrow> (Some (OSError e), t2)
                | None \<Rightarrow>
                    (case copy_fault faults of
                       Some (e, n) \<Rightarrow>
                         (Some (OSError e), t2 @ [Copy targetFile (take n (Body resp))])
                     | None \<Rightarrow>
                         let t3 = t2 @ [Copy targetFile (Body resp), Close targetFile] in
                         (case close_fault faults of
                            Some e \<Rightarrow> (None, t3)
                          | None \<Rightarrow>
                              let got = sha256hex (Body resp) in
                              if got \<noteq> checksum
                              then (Some (ChecksumMismatch got checksum), t3)
                              else
                                (case chmod_fault faults of
                                   Some e \<Rightarrow> (Some (OSError e), t3 @ [Chmod targetFile])
                                 | None \<Rightarrow> (None, t3 @ [Chmod targetFile])))))))"




section \<open>The toolchain cache\<close>

text \<open>
  The cache directory tree: which paths hold a directory, and what is in it. An
  extraction that fails leaves the staging directory partly filled.
\<close>

datatype dir_content = EmptyDir | PartialDir | Extracted string string

type_synonym filesystem = "string \<Rightarrow> dir_content option"

record cache_faults =
  stat_fault :: "string option"
  mkdir_fault :: "string option"
  extract_fault :: "string option"
  rename_fault :: "string option"

text \<open>\<open>os.Stat\<close>: \<open>None\<close> is a nil error.\<close>

definition osStat :: "cache_faults \<Rightarrow> filesystem \<Rightarrow> string \<Rightarrow> error option" where
  "osStat faults fs p =
     (case stat_fault faults of
        Some e \<Rightarrow> Some (OSError e)
      | None \<Rightarrow> (if fs p \<noteq> None then None else Some ErrNotExist))"

definition binDir :: "string \<Rightarrow> string \<Rightarrow> string" where
  "binDir os rel = Join os [rel, ''go'', ''bin'']"

text \<open>
  The statements of \<open>getRuntime\<close> that follow \<open>defer os.RemoveAll(tmp)\<close>:
  \<open>os.MkdirAll\<close> (which leaves a directory that is already there as it is),
  \<open>download.Extract\<close> (of another package: it succeeds or fails as the environment
  says) and \<open>os.Rename\<close> (which moves the directory, or fails and changes nothing).
\<close>

definition stage :: "cache_faults \<Rightarrow> string \<Rightarrow> string \<Rightarrow> string \<Rightarrow> string \<Rightarrow> filesystem
    \<Rightarrow> error option \<times> filesystem \<times> event list" where
  "stage faults url sha tmp target fs =
     (case mkdir_fault faults of
        Some e \<Rightarrow> (Some (OSError e), fs, [MkdirAll tmp])
      | None \<Rightarrow>
          let fs1 = (if fs tmp = None then fs(tmp \<mapsto> EmptyDir) else fs) in
          (case extract_fault faults of
             Some e \<Rightarrow>
               (Some (ExtractError e), fs1(tmp \<mapsto> PartialDir),
                [MkdirAll tmp, Extract url sha tmp])
           | None \<Rightarrow>
               let fs2 = fs1(tmp \<mapsto> Extracted url sha) in
               (case rename_fault faults of
                  Some e \<Rightarrow>
                    (Some (OSError e), fs2,
                     [MkdirAll tmp, Extract url sha tmp, Rename tmp target])
                | None \<Rightarrow>
                    (None, fs2(target := fs2 tmp, tmp := None),
                     [MkdirAll tmp, Extract url sha tmp, Rename tmp target]))))"

text \<open>
  \<open>Runtime.getRuntime\<close>. \<open>hashID\<close> is \<open>hash.ID\<close>, of another package. The deferred
  \<open>os.RemoveAll(tmp)\<close> runs when the function returns after the \<open>defer\<close> statement; its
  error is discarded, and the directory is taken to be gone afterwards. Logging is left
  out. The result is the returned path or error, the file system afterwards, and the
  calls made.
\<close>

definition getRuntime :: "string \<Rightarrow> (string list \<Rightarrow> string) \<Rightarrow> string \<Rightarrow> string
    \<Rightarrow> cache_faults \<Rightarrow> string \<Rightarrow> string \<Rightarrow> filesystem
    \<Rightarrow> (error + string) \<times> filesystem \<times> event list" where
  "getRuntime releasesData hashID os arch faults Version cwd fs =
     (case getReleaseAndDigest releasesData os arch Version of
        Inl err \<Rightarrow> (Inl err, fs, [])
      | Inr (url, sha) \<Rightarrow>
          let target = Join os [cwd, ''golang'', hashID [url, sha]] in
          (case osStat faults fs target of
             None \<Rightarrow> (Inr (binDir os target), fs, [Stat target])
           | Some err \<Rightarrow>
               if err \<noteq> ErrNotExist then (Inl err, fs, [Stat target])
               else
                 let tmp = target @ ''.download'' in
                 (case stage faults url sha tmp target fs of
                    (Some err, fs', tr) \<Rightarrow>
                      (Inl err, fs'(tmp := None), [Stat target] @ tr @ [RemoveAll tmp])
                  | (None, fs', tr) \<Rightarrow>
                      (Inr (binDir os target), fs'(tmp := None),
                       [Stat target] @ tr @ [RemoveAll tmp]))))"

section \<open>The checksum fetcher as specified\<close>


section \<open>Properties of the string functions\<close>









section \<open>Properties of the release index\<close>









section \<open>Properties of release resolution\<close>

lemma tagLoop_find:
  "tagLoop acc rp revision tags =
     map_option (\<lambda>g. \<lparr>account = acc, repo = rp, label = Name g\<rparr>)
       (find (\<lambda>g. Sha g = revision) tags)"
  by (induction tags) auto


text \<open>
  C7: a tool with no repository, or whose repository root does not start with
  \<open>https://github.com/\<close>, or whose root, without a \<open>.git\<close> suffix and the
  \<open>https://\<close> prefix, does not split at \<open>/\<close> into exactly three pieces (host, account,
  repository), is not resolvable: \<open>getLatestRelease\<close> returns \<open>(nil, false)\<close> and
  makes no network call.
\<close>

theorem getLatestRelease_rejects_without_network:
  "Repo t = None
   \<or> (\<exists>rp. Repo t = Some rp
        \<and> (\<not> HasPrefix (Root rp) ''https://github.com/''
           \<or> length (Split (TrimPrefix (TrimSuffix (Root rp) ''.git'') ''https://'') ''/'') \<noteq> 3))
   \<Longrightarrow> getLatestRelease client decode t = ((None, False), [])"
proof (cases "Repo t")
  case None
  then show ?thesis by (simp add: getLatestRelease_def)
next
  case (Some rp)
  assume "Repo t = None
   \<or> (\<exists>rp. Repo t = Some rp
        \<and> (\<not> HasPrefix (Root rp) ''https://github.com/''
           \<or> length (Split (TrimPrefix (TrimSuffix (Root rp) ''.git'') ''https://'') ''/'') \<noteq> 3))"
  with Some have "\<not> HasPrefix (Root rp) ''https://github.com/''
      \<or> length (Split (TrimPrefix (TrimSuffix (Root rp) ''.git'') ''https://'') ''/'') \<noteq> 3"
    by simp
  then show ?thesis
  proof
    assume "\<not> HasPrefix (Root rp) ''https://github.com/''"
    with Some show ?thesis by (simp add: getLatestRelease_def)
  next
    assume "length (Split (TrimPrefix (TrimSuffix (Root rp) ''.git'') ''https://'') ''/'') \<noteq> 3"
    with Some show ?thesis by (simp add: getLatestRelease_def Let_def)
  qed
qed

theorem getLatestRelease_rejects_without_network_witness:
  "getLatestRelease (\<lambda>u. Failed ''no network'') (\<lambda>b. None)
      \<lparr>IsGit = True, Repo = Some \<lparr>Root = ''https://gitlab.com/acme/tool'', Revision = ''abc''\<rparr>\<rparr>
     = ((None, False), [])
   \<and> getLatestRelease (\<lambda>u. Failed ''no network'') (\<lambda>b. None)
      \<lparr>IsGit = True, Repo = Some \<lparr>Root = ''https://github.com/acme/tool/sub.git'', Revision = ''abc''\<rparr>\<rparr>
     = ((None, False), [])"
proof -
  let ?a = "\<lparr>IsGit = True, Repo = Some \<lparr>Root = ''https://gitlab.com/acme/tool'', Revision = ''abc''\<rparr>\<rparr>"
  let ?b = "\<lparr>IsGit = True, Repo = Some \<lparr>Root = ''https://github.com/acme/tool/sub.git'', Revision = ''abc''\<rparr>\<rparr>"
  have a: "Repo ?a = None
   \<or> (\<exists>rp. Repo ?a = Some rp
        \<and> (\<not> HasPrefix (Root rp) ''https://github.com/''
           \<or> length (Split (TrimPrefix (TrimSuffix (Root rp) ''.git'') ''https://'') ''/'') \<noteq> 3))"
    by (simp add: HasPrefix_def)
  have b: "Repo ?b = None
   \<or> (\<exists>rp. Repo ?b = Some rp
        \<and> (\<not> HasPrefix (Root rp) ''https://github.com/''
           \<or> length (Split (TrimPrefix (TrimSuffix (Root rp) ''.git'') ''https://'') ''/'') \<noteq> 3))"
    by (simp add: HasPrefix_def TrimSuffix_def TrimPrefix_def Split_def suffix_def)
  show ?thesis
    using getLatestRelease_rejects_without_network [OF a]
      getLatestRelease_rejects_without_network [OF b]
    by simp
qed

text \<open>Every other tool is looked up: the first call is the request for the tags of
  the repository.\<close>

lemma getLatestRelease_asks_tags:
  assumes "Repo t = Some rp"
    and "HasPrefix (Root rp) ''https://github.com/''"
    and "Split (TrimPrefix (TrimSuffix (Root rp) ''.git'') ''https://'') ''/'' = [host, acc, rpo]"
  shows "take 1 (snd (getLatestRelease client decode t))
           = [HttpGet (''https://api.github.com/repos/'' @ acc @ ''/'' @ rpo @ ''/tags'')]"
  using assms
  by (simp add: getLatestRelease_def Let_def split: http_result.split option.split)

text \<open>
  C8: when the tag listing answers with status 200 and decodes to a list that holds a
  tag whose commit is the requested revision, \<open>getLatestRelease\<close> returns the name of
  the first such tag as the label, and the tag listing is the only request it makes: the
  \<open>releases/latest\<close> endpoint is not asked, whatever it would answer.
\<close>

theorem getLatestRelease_tag_match_first:
  assumes "Repo t = Some rp"
    and "HasPrefix (Root rp) ''https://github.com/''"
    and "Split (TrimPrefix (TrimSuffix (Root rp) ''.git'') ''https://'') ''/'' = [host, acc, rpo]"
    and "client (''https://api.github.com/repos/'' @ acc @ ''/'' @ rpo @ ''/tags'') = Responded resp"
    and "StatusCode resp = 200"
    and "decode (Body resp) = Some tags"
    and "find (\<lambda>g. Sha g = Revision rp) tags = Some g"
  shows "getLatestRelease client decode t =
           ((Some \<lparr>account = acc, repo = rpo, label = Name g\<rparr>, True),
            [HttpGet (''https://api.github.com/repos/'' @ acc @ ''/'' @ rpo @ ''/tags'')])"
  using assms by (simp add: getLatestRelease_def Let_def tagLoop_find)

theorem getLatestRelease_tag_match_first_witness:
  "getLatestRelease
     (\<lambda>u. if u = ''https://api.github.com/repos/acme/toolX/tags''
          then Responded \<lparr>StatusCode = 200, Location = [], Body = ''tags.json''\<rparr>
          else Responded \<lparr>StatusCode = 302,
                 Location = ''https://github.com/acme/toolX/releases/tag/v9.9.9'', Body = []\<rparr>)
     (\<lambda>b. if b = ''tags.json''
          then Some [\<lparr>Name = ''v1.0.0'', Sha = ''aaa''\<rparr>, \<lparr>Name = ''v1.1.0'', Sha = ''bbb''\<rparr>,
                     \<lparr>Name = ''v1.1.0-again'', Sha = ''bbb''\<rparr>]
          else None)
     \<lparr>IsGit = True, Repo = Some \<lparr>Root = ''https://github.com/acme/toolX.git'', Revision = ''bbb''\<rparr>\<rparr>
   = ((Some \<lparr>account = ''acme'', repo = ''toolX'', label = ''v1.1.0''\<rparr>, True),
      [HttpGet ''https://api.github.com/repos/acme/toolX/tags''])"
proof -
  let ?client = "\<lambda>u. if u = ''https://api.github.com/repos/acme/toolX/tags''
          then Responded \<lparr>StatusCode = 200, Location = [], Body = ''tags.json''\<rparr>
          else Responded \<lparr>StatusCode = 302,
                 Location = ''https://github.com/acme/toolX/releases/tag/v9.9.9'', Body = []\<rparr>"
  let ?tags = "[\<lparr>Name = ''v1.0.0'', Sha = ''aaa''\<rparr>, \<lparr>Name = ''v1.1.0'', Sha = ''bbb''\<rparr>,
                     \<lparr>Name = ''v1.1.0-again'', Sha = ''bbb''\<rparr>]"
  let ?decode = "\<lambda>b. if b = ''tags.json'' then Some ?tags else None"
  let ?rp = "\<lparr>Root = ''https://github.com/acme/toolX.git'', Revision = ''bbb''\<rparr>"
  let ?t = "\<lparr>IsGit = True, Repo = Some ?rp\<rparr>"
  let ?resp = "\<lparr>StatusCode = 200, Location = [], Body = ''tags.json''\<rparr>"
  have 1: "Repo ?t = Some ?rp" by simp
  have 2: "HasPrefix (Root ?rp) ''https://github.com/''" by (simp add: HasPrefix_def)
  have 3: "Split (TrimPrefix (TrimSuffix (Root ?rp) ''.git'') ''https://'') ''/''
             = [''github.com'', ''acme'', ''toolX'']"
    by (simp add: TrimSuffix_def TrimPrefix_def Split_def suffix_def)
  have 4: "?client (''https://api.github.com/repos/'' @ ''acme'' @ ''/'' @ ''toolX'' @ ''/tags'')
             = Responded ?resp" by simp
  have 5: "StatusCode ?resp = 200" by simp
  have 6: "?decode (Body ?resp) = Some ?tags" by simp
  have 7: "find (\<lambda>g. Sha g = Revision ?rp) ?tags = Some \<lparr>Name = ''v1.1.0'', Sha = ''bbb''\<rparr>"
    by simp
  show ?thesis using getLatestRelease_tag_match_first [where client = ?client and decode = ?decode, OF 1 2 3 4 5 6 7] by simp
qed

section \<open>Properties of the checksum fetcher\<close>




section \<open>Properties of the verified download\<close>

text \<open>
  C10: when the response arrived, the directory and the file were created and the body
  was copied, and closing the file fails, \<open>downloadBin\<close> returns nil at once: for every
  expected checksum, equal to the digest of the body or not, and without calling
  \<open>Chmod\<close>.
\<close>

theorem downloadBin_close_error_returns_nil:
  assumes "get http url = Inr resp"
    and "mkdirall_fault faults = None"
    and "create_fault faults = None"
    and "copy_fault faults = None"
    and "close_fault faults = Some e"
  shows "downloadBin sha256hex http faults os checksum src url bin =
           (None, [HttpGet url, MkdirAll (Join os [src, ''bin'']),
                   Create (Join os [src, ''bin'', bin]),
                   Copy (Join os [src, ''bin'', bin]) (Body resp),
                   Close (Join os [src, ''bin'', bin])])
     \<and> (\<forall>p. Chmod p \<notin> set (snd (downloadBin sha256hex http faults os checksum src url bin)))"
  using assms by (simp add: downloadBin_def Let_def)

theorem downloadBin_close_error_returns_nil_witness:
  "\<forall>sha256hex checksum.
     downloadBin sha256hex
       (\<lambda>u. Responded \<lparr>StatusCode = 200, Location = [], Body = ''binary''\<rparr>)
       \<lparr>mkdirall_fault = None, create_fault = None, copy_fault = None,
        close_fault = Some ''no space left on device'', chmod_fault = None\<rparr>
       ''linux'' checksum ''/tool'' ''https://example.org/toolX-linux-amd64''
       ''gptscript-go-tool''
     = (None,
        [HttpGet ''https://example.org/toolX-linux-amd64'', MkdirAll ''/tool/bin'',
         Create ''/tool/bin/gptscript-go-tool'', Copy ''/tool/bin/gptscript-go-tool'' ''binary'',
         Close ''/tool/bin/gptscript-go-tool''])"
proof (intro allI)
  fix sha256hex :: "string \<Rightarrow> string" and checksum :: string
  let ?http = "\<lambda>u::string. Responded \<lparr>StatusCode = 200, Location = [], Body = ''binary''\<rparr>"
  let ?resp = "\<lparr>StatusCode = 200, Location = [], Body = ''binary''\<rparr>"
  let ?faults = "\<lparr>mkdirall_fault = None, create_fault = None, copy_fault = None,
        close_fault = Some ''no space left on device'', chmod_fault = None\<rparr>"
  have 1: "get ?http ''https://example.org/toolX-linux-amd64'' = Inr ?resp"
    by (simp add: get_def)
  have 2: "mkdirall_fault ?faults = None" by simp
  have 3: "create_fault ?faults = None" by simp
  have 4: "copy_fault ?faults = None" by simp
  have 5: "close_fault ?faults = Some ''no space left on device''" by simp
  show "downloadBin sha256hex ?http ?faults ''linux'' checksum ''/tool''
       ''https://example.org/toolX-linux-amd64'' ''gptscript-go-tool''
     = (None,
        [HttpGet ''https://example.org/toolX-linux-amd64'', MkdirAll ''/tool/bin'',
         Create ''/tool/bin/gptscript-go-tool'', Copy ''/tool/bin/gptscript-go-tool'' ''binary'',
         Close ''/tool/bin/gptscript-go-tool''])"
    using downloadBin_close_error_returns_nil
        [where http = ?http, OF 1 2 3 4 5, of sha256hex "''linux''" checksum "''/tool''"
          "''gptscript-go-tool''"]
    by (simp add: Join_def Separator_def)
qed

text \<open>When closing succeeds, a digest that differs from the expected checksum is
  reported, and with an error other than the one for a bad status.\<close>

lemma downloadBin_mismatch_detected:
  assumes "get http url = Inr resp"
    and "mkdirall_fault faults = None"
    and "create_fault faults = None"
    and "copy_fault faults = None"
    and "close_fault faults = None"
    and "sha256hex (Body resp) \<noteq> checksum"
  shows "fst (downloadBin sha256hex http faults os checksum src url bin)
           = Some (ChecksumMismatch (sha256hex (Body resp)) checksum)
     \<and> (\<forall>n. fst (downloadBin sha256hex http faults os checksum src url bin)
           \<noteq> Some (BadStatus n))"
  using assms by (simp add: downloadBin_def Let_def)

lemma downloadBin_bad_status:
  assumes "http url = Responded resp" and "StatusCode resp \<noteq> 200"
  shows "downloadBin sha256hex http faults os checksum src url bin
           = (Some (BadStatus (StatusCode resp)), [HttpGet url])"
  using assms by (simp add: downloadBin_def get_def)

text \<open>
  C2 does not hold of \<open>downloadBin\<close> as it is written: the branch for a failing
  \<open>Close\<close> returns nil where every other branch returns the error. For the body
  \<open>payload\<close> and the expected checksum \<open>deadbeef\<close> (no SHA-256 digest in hexadecimal,
  which has 64 characters, equals it) the download is reported as a success, whatever
  the digest function computes.
\<close>

theorem downloadBin_close_error_hides_mismatch:
  "downloadBin sha256hex
     (\<lambda>u. Responded \<lparr>StatusCode = 200, Location = [], Body = ''payload''\<rparr>)
     \<lparr>mkdirall_fault = None, create_fault = None, copy_fault = None,
      close_fault = Some ''input/output error'', chmod_fault = None\<rparr>
     ''linux'' ''deadbeef'' ''/src''
     ''https://github.com/acme/toolX/releases/download/v1.1.0/toolX-linux-amd64''
     ''gptscript-go-tool''
   = (None,
      [HttpGet ''https://github.com/acme/toolX/releases/download/v1.1.0/toolX-linux-amd64'',
       MkdirAll ''/src/bin'', Create ''/src/bin/gptscript-go-tool'',
       Copy ''/src/bin/gptscript-go-tool'' ''payload'', Close ''/src/bin/gptscript-go-tool''])"
  by (simp add: downloadBin_def get_def Join_def Separator_def Let_def)

section \<open>Properties of the prebuilt-binary fetch\<close>



section \<open>Properties of the toolchain cache\<close>

text \<open>A manifest of one entry, used in the examples below.\<close>

lemma example_release:
  "getReleaseAndDigest ''deadbeef  go1.22.1.linux-amd64.tar.gz'' ''linux'' ''amd64'' ''1.22.1''
     = Inr (''https://go.dev/dl/go1.22.1.linux-amd64.tar.gz'', ''deadbeef'')"
  by (simp add: getReleaseAndDigest_def ScanLines_def dropCR_def Split_def TrimSpace_def
      isSpace_def HasPrefix_def ID_def Let_def downloadURL_def)

text \<open>
  C1: every run of \<open>getRuntime\<close> keeps the cache entry whole. If resolving the release
  fails nothing is touched. Otherwise, with \<open>target\<close> the fingerprinted path and
  \<open>tmp\<close> the staging path \<open>target.download\<close>: a target that held no empty or partly
  extracted directory before holds none afterwards; starting without a directory at
  \<open>target\<close>, one is there afterwards exactly when the probe, \<open>MkdirAll\<close>, \<open>Extract\<close>
  and \<open>Rename\<close> all succeeded, which is exactly when the call returns the executable
  directory, and then it holds the complete extraction, put there by the one \<open>Rename\<close>
  of the run; after a probe that found nothing the staging directory is gone and
  \<open>RemoveAll tmp\<close> is the last call made, on success and on every failure, and a
  failure leaves no directory at \<open>target\<close>; no other path changes.
\<close>

theorem getRuntime_cache_entry_invariant:
  assumes "getRuntime releasesData hashID os arch faults Version cwd fs = (res, fs', tr)"
  shows "case getReleaseAndDigest releasesData os arch Version of
           Inl e \<Rightarrow> res = Inl e \<and> fs' = fs \<and> tr = []
         | Inr (url, sha) \<Rightarrow>
             let target = Join os [cwd, ''golang'', hashID [url, sha]];
                 tmp = target @ ''.download''
             in (fs target \<noteq> Some EmptyDir \<and> fs target \<noteq> Some PartialDir
                   \<longrightarrow> fs' target \<noteq> Some EmptyDir \<and> fs' target \<noteq> Some PartialDir)
              \<and> (fs target = None \<longrightarrow>
                    (fs' target \<noteq> None) =
                      (stat_fault faults = None \<and> mkdir_fault faults = None
                       \<and> extract_fault faults = None \<and> rename_fault faults = None)
                  \<and> (fs' target \<noteq> None) = (res = Inr (binDir os target))
                  \<and> (fs' target \<noteq> None \<longrightarrow>
                        fs' target = Some (Extracted url sha)
                      \<and> tr = [Stat target, MkdirAll tmp, Extract url sha tmp,
                              Rename tmp target, RemoveAll tmp]))
              \<and> (fs target = None \<and> stat_fault faults = None \<longrightarrow>
                    fs' tmp = None \<and> last tr = RemoveAll tmp
                  \<and> (\<forall>e. res = Inl e \<longrightarrow> fs' target = None))
              \<and> (\<forall>p. p \<noteq> target \<and> p \<noteq> tmp \<longrightarrow> fs' p = fs p)"
  using assms
  by (auto simp: getRuntime_def stage_def osStat_def Let_def
      split: sum.splits option.splits if_splits prod.splits)

theorem getRuntime_cache_entry_invariant_witness:
  "\<forall>hashID.
     getRuntime ''deadbeef  go1.22.1.linux-amd64.tar.gz'' hashID ''linux'' ''amd64''
       \<lparr>stat_fault = None, mkdir_fault = None, extract_fault = Some ''unexpected EOF'',
        rename_fault = None\<rparr>
       ''1.22.1'' ''/data'' Map.empty
     = (Inl (ExtractError ''unexpected EOF''), Map.empty,
        [Stat (Join ''linux'' [''/data'', ''golang'',
                 hashID [''https://go.dev/dl/go1.22.1.linux-amd64.tar.gz'', ''deadbeef'']]),
         MkdirAll (Join ''linux'' [''/data'', ''golang'',
                 hashID [''https://go.dev/dl/go1.22.1.linux-amd64.tar.gz'', ''deadbeef'']]
                   @ ''.download''),
         Extract ''https://go.dev/dl/go1.22.1.linux-amd64.tar.gz'' ''deadbeef''
           (Join ''linux'' [''/data'', ''golang'',
                 hashID [''https://go.dev/dl/go1.22.1.linux-amd64.tar.gz'', ''deadbeef'']]
                   @ ''.download''),
         RemoveAll (Join ''linux'' [''/data'', ''golang'',
                 hashID [''https://go.dev/dl/go1.22.1.linux-amd64.tar.gz'', ''deadbeef'']]
                   @ ''.download'')])"
proof
  fix hashID :: "string list \<Rightarrow> string"
  let ?faults = "\<lparr>stat_fault = None, mkdir_fault = None,
        extract_fault = Some ''unexpected EOF'', rename_fault = None\<rparr>"
  let ?run = "getRuntime ''deadbeef  go1.22.1.linux-amd64.tar.gz'' hashID ''linux'' ''amd64''
       ?faults ''1.22.1'' ''/data'' Map.empty"
  obtain res fs' tr where run: "?run = (res, fs', tr)" by (cases ?run)
  have ev: "res = Inl (ExtractError ''unexpected EOF'')
      \<and> tr = [Stat (Join ''linux'' [''/data'', ''golang'',
                 hashID [''https://go.dev/dl/go1.22.1.linux-amd64.tar.gz'', ''deadbeef'']]),
         MkdirAll (Join ''linux'' [''/data'', ''golang'',
                 hashID [''https://go.dev/dl/go1.22.1.linux-amd64.tar.gz'', ''deadbeef'']]
                   @ ''.download''),
         Extract ''https://go.dev/dl/go1.22.1.linux-amd64.tar.gz'' ''deadbeef''
           (Join ''linux'' [''/data'', ''golang'',
                 hashID [''https://go.dev/dl/go1.22.1.linux-amd64.tar.gz'', ''deadbeef'']]
                   @ ''.download''),
         RemoveAll (Join ''linux'' [''/data'', ''golang'',
                 hashID [''https://go.dev/dl/go1.22.1.linux-amd64.tar.gz'', ''deadbeef'']]
                   @ ''.download'')]"
    using run by (simp add: getRuntime_def example_release osStat_def stage_def Let_def)
  have "fs' p = None" for p
    using getRuntime_cache_entry_invariant [OF run] ev
    by (cases "p = Join ''linux'' [''/data'', ''golang'',
                 hashID [''https://go.dev/dl/go1.22.1.linux-amd64.tar.gz'', ''deadbeef'']]";
        cases "p = Join ''linux'' [''/data'', ''golang'',
                 hashID [''https://go.dev/dl/go1.22.1.linux-amd64.tar.gz'', ''deadbeef'']]
                   @ ''.download''")
       (simp_all add: example_release Let_def)
  then have "fs' = Map.empty" by (intro ext)
  with run ev show "?run = (Inl (ExtractError ''unexpected EOF''), Map.empty,
        [Stat (Join ''linux'' [''/data'', ''golang'',
                 hashID [''https://go.dev/dl/go1.22.1.linux-amd64.tar.gz'', ''deadbeef'']]),
         MkdirAll (Join ''linux'' [''/data'', ''golang'',
                 hashID [''https://go.dev/dl/go1.22.1.linux-amd64.tar.gz'', ''deadbeef'']]
                   @ ''.download''),
         Extract ''https://go.dev/dl/go1.22.1.linux-amd64.tar.gz'' ''deadbeef''
           (Join ''linux'' [''/data'', ''golang'',
                 hashID [''https://go.dev/dl/go1.22.1.linux-amd64.tar.gz'', ''deadbeef'']]
                   @ ''.download''),
         RemoveAll (Join ''linux'' [''/data'', ''golang'',
                 hashID [''https://go.dev/dl/go1.22.1.linux-amd64.tar.gz'', ''deadbeef'']]
                   @ ''.download'')])"
    by simp
qed



end
